theory Spec2Isabelle
  imports Main "HOL-Library.Multiset" "HOL-Library.AList"
begin

section \<open>Ledger store: the schema of sql/init.sql\<close>

text \<open>
  Money is \<open>DECIMAL(15, 2)\<close>: a fixed-point number with two fractional digits and at most
  fifteen digits in all. A value is held as its number of cents, an \<open>int\<close>; a value fits
  the type when its magnitude is below \<open>10^15\<close> cents, and PostgreSQL raises
  "numeric field overflow" when a value that does not fit is stored.
  A UUID is held as its 128-bit number, a timestamp as a number of microseconds.
\<close>

type_synonym uuid = nat
type_synonym timestamp = nat
type_synonym cents = int
type_synonym json_object = "(string \<times> string) list"

datatype transaction_type = Credit | Debit | Wager | Payout | Bonus | Refund

datatype status = Active | Suspended | Inactive

datatype role = Player | Admin

text \<open>
  A row of \<open>users\<close>. The columns \<open>password_hash\<close> and \<open>last_login\<close> are read and
  written by the login path only and are left out.
\<close>

record users_row =
  u_id :: uuid
  username :: string
  email :: string
  balance :: cents
  status :: status
  role :: role
  u_created_at :: timestamp
  updated_at :: timestamp

text \<open>A row of \<open>transactions\<close>.\<close>

record transactions_row =
  t_id :: uuid
  user_id :: uuid
  transaction_id :: string
  t_type :: transaction_type
  amount :: cents
  balance_before :: cents
  balance_after :: cents
  description :: "string option"
  metadata :: "json_object option"
  processed_at :: timestamp
  t_created_at :: timestamp

text \<open>The database: both tables, rows in insertion order.\<close>

record db =
  users :: "users_row list"
  transactions :: "transactions_row list"

text \<open>
  What a call draws from its environment: \<open>CURRENT_TIMESTAMP\<close> and
  \<open>uuid_generate_v4()\<close> in the database; \<open>uuidv4()\<close>, \<open>Date.now()\<close> (printed) and
  \<open>new Date().toISOString()\<close> in the service.
\<close>

record env =
  current_timestamp :: timestamp
  uuid_generate_v4 :: uuid
  uuidv4 :: string
  date_now :: string
  new_Date_toISOString :: string

text \<open>The exceptions PostgreSQL raises, by cause.\<close>

datatype pg_error =
    Raise_User_not_found uuid
  | Raise_Insufficient_funds cents cents
  | Unique_violation string
  | Check_violation string
  | Foreign_key_violation string
  | Numeric_field_overflow
  | Value_too_long

definition numeric_15_2 :: "int \<Rightarrow> pg_error + cents" where
  "numeric_15_2 x = (if \<bar>x\<bar> < 1000000000000000 then Inr x else Inl Numeric_field_overflow)"

definition credit_class :: "transaction_type \<Rightarrow> bool" where
  "credit_class ty = (ty = Credit \<or> ty = Payout \<or> ty = Bonus \<or> ty = Refund)"

definition debit_class :: "transaction_type \<Rightarrow> bool" where
  "debit_class ty = (ty = Debit \<or> ty = Wager)"

text \<open>\<open>SELECT ... FROM users WHERE id = $1\<close>: the row with that primary key, if any.\<close>

definition select_user :: "db \<Rightarrow> uuid \<Rightarrow> users_row option" where
  "select_user d i = find (\<lambda>u. u_id u = i) (users d)"

text \<open>\<open>SELECT ... FROM transactions WHERE transaction_id = $1\<close>, first row.\<close>

definition select_transaction :: "db \<Rightarrow> string \<Rightarrow> transactions_row option" where
  "select_transaction d k = find (\<lambda>t. transaction_id t = k) (transactions d)"

text \<open>
  \<open>INSERT INTO transactions\<close>: the values are coerced to the column types
  (\<open>VARCHAR(100)\<close>, \<open>DECIMAL(15, 2)\<close>), then the CHECK constraints are tested, then the
  primary key, the unique index on \<open>transaction_id\<close> and the foreign key to \<open>users\<close>.
\<close>

definition transaction_balance_consistency :: "transactions_row \<Rightarrow> bool" where
  "transaction_balance_consistency r =
     ((credit_class (t_type r) \<and> balance_after r = balance_before r + amount r) \<or>
      (debit_class (t_type r) \<and> balance_after r = balance_before r - amount r))"

definition insert_transaction :: "db \<Rightarrow> transactions_row \<Rightarrow> pg_error + db" where
  "insert_transaction d r =
     (if length (transaction_id r) > 100 then Inl Value_too_long
      else if numeric_15_2 (amount r) = Inl Numeric_field_overflow
            \<or> numeric_15_2 (balance_before r) = Inl Numeric_field_overflow
            \<or> numeric_15_2 (balance_after r) = Inl Numeric_field_overflow
        then Inl Numeric_field_overflow
      else if \<not> transaction_balance_consistency r
        then Inl (Check_violation ''transaction_balance_consistency'')
      else if \<not> amount r > 0 then Inl (Check_violation ''transactions_amount_check'')
      else if \<not> balance_after r \<ge> 0
        then Inl (Check_violation ''transactions_balance_after_check'')
      else if \<not> balance_before r \<ge> 0
        then Inl (Check_violation ''transactions_balance_before_check'')
      else if t_id r \<in> set (map t_id (transactions d))
        then Inl (Unique_violation ''transactions_pkey'')
      else if transaction_id r \<in> set (map transaction_id (transactions d))
        then Inl (Unique_violation ''transactions_transaction_id_key'')
      else if user_id r \<notin> set (map u_id (users d))
        then Inl (Foreign_key_violation ''transactions_user_id_fkey'')
      else Inr (d\<lparr>transactions := transactions d @ [r]\<rparr>))"

text \<open>
  \<open>UPDATE users SET balance = new_balance, updated_at = CURRENT_TIMESTAMP WHERE id = p_user_id\<close>,
  under the column type and \<open>CHECK (balance >= 0)\<close>. The trigger
  \<open>update_users_updated_at\<close> sets \<open>updated_at\<close> to the same timestamp.
\<close>

definition update_user_balance :: "db \<Rightarrow> env \<Rightarrow> uuid \<Rightarrow> cents \<Rightarrow> pg_error + db" where
  "update_user_balance d e i new_balance =
     (if select_user d i = None then Inr d
      else if numeric_15_2 new_balance = Inl Numeric_field_overflow
        then Inl Numeric_field_overflow
      else if \<not> new_balance \<ge> 0 then Inl (Check_violation ''users_balance_check'')
      else Inr (d\<lparr>users := map (\<lambda>u. if u_id u = i
                  then u\<lparr>balance := new_balance, updated_at := current_timestamp e\<rparr>
                  else u) (users d)\<rparr>))"

section \<open>Transaction engine: process_transaction\<close>

text \<open>
  The \<open>CASE p_type\<close> of the function: the new balance, assigned to a variable of type
  \<open>DECIMAL(15, 2)\<close>, and the insufficient-funds test of the debit branch. The \<open>ELSE\<close>
  branch of the source is unreachable, \<open>transaction_type\<close> having these six values only.
\<close>

definition calculate_new_balance :: "transaction_type \<Rightarrow> cents \<Rightarrow> cents \<Rightarrow> pg_error + cents" where
  "calculate_new_balance p_type current_balance p_amount =
     (if p_type = Credit \<or> p_type = Payout \<or> p_type = Bonus \<or> p_type = Refund
        then numeric_15_2 (current_balance + p_amount)
      else
        (case numeric_15_2 (current_balance - p_amount) of
           Inl err \<Rightarrow> Inl err
         | Inr new_balance \<Rightarrow>
             if new_balance < 0 then Inl (Raise_Insufficient_funds current_balance p_amount)
             else Inr new_balance))"

text \<open>
  The body of \<open>process_transaction\<close>. \<open>p_amount\<close> is taken at the declared type of the
  parameter, a number of cents. An exception leaves no state behind: the statement that
  called the function is rolled back.
\<close>

definition process_transaction ::
  "db \<Rightarrow> env \<Rightarrow> uuid \<Rightarrow> string \<Rightarrow> transaction_type \<Rightarrow> cents \<Rightarrow> string option \<Rightarrow>
   json_object option \<Rightarrow> pg_error + (db \<times> transactions_row)" where
  "process_transaction d e p_user_id p_transaction_id p_type p_amount p_description p_metadata =
     (case select_user d p_user_id of
        None \<Rightarrow> Inl (Raise_User_not_found p_user_id)
      | Some u \<Rightarrow>
          (case calculate_new_balance p_type (balance u) p_amount of
             Inl err \<Rightarrow> Inl err
           | Inr new_balance \<Rightarrow>
               let transaction_record =
                     \<lparr>t_id = uuid_generate_v4 e, user_id = p_user_id,
                      transaction_id = p_transaction_id, t_type = p_type, amount = p_amount,
                      balance_before = balance u, balance_after = new_balance,
                      description = p_description, metadata = p_metadata,
                      processed_at = current_timestamp e, t_created_at = current_timestamp e\<rparr>
               in (case insert_transaction d transaction_record of
                     Inl err \<Rightarrow> Inl err
                   | Inr d1 \<Rightarrow>
                       (case update_user_balance d1 e p_user_id new_balance of
                          Inl err \<Rightarrow> Inl err
                        | Inr d2 \<Rightarrow> Inr (d2, transaction_record)))))"

text \<open>
  The statement \<open>SELECT * FROM process_transaction($1, ..., $6)\<close> as the database runs it:
  committed when the function returns, rolled back whole when it raises.
\<close>

definition query_process_transaction ::
  "db \<Rightarrow> env \<Rightarrow> uuid \<Rightarrow> string \<Rightarrow> transaction_type \<Rightarrow> cents \<Rightarrow> string option \<Rightarrow>
   json_object option \<Rightarrow> db \<times> (pg_error + transactions_row)" where
  "query_process_transaction d e p_user_id p_transaction_id p_type p_amount p_description p_metadata =
     (case process_transaction d e p_user_id p_transaction_id p_type p_amount p_description p_metadata of
        Inl err \<Rightarrow> (d, Inl err)
      | Inr (d', r) \<Rightarrow> (d', Inr r))"

section \<open>Ledger service: walletService.ts and its collaborators\<close>

text \<open>
  The errors the service layer throws, each a JavaScript \<open>Error\<close> with a fixed message:
  \<^item> \<open>AccountNotFound\<close>: "User not found";
  \<^item> \<open>AccountNotActive s\<close>: "User account is s";
  \<^item> \<open>InvalidAmount Not_positive\<close>: "Amount must be positive";
  \<^item> \<open>InvalidAmount Too_many_decimals\<close>: "Amount must have at most 2 decimal places";
  \<^item> \<open>InsufficientFunds\<close>: "Insufficient funds";
  \<^item> \<open>DuplicateIdempotencyKey\<close>: "Transaction ID already exists";
  \<^item> \<open>IdempotencyKeyConflict Different_user\<close>: "Transaction ID belongs to a different user";
  \<^item> \<open>IdempotencyKeyConflict Different_type\<close>:
    "Transaction ID already used for a different operation type";
  \<^item> \<open>UsernameExists\<close>, \<open>EmailExists\<close>: "Username already exists", "Email already exists";
  \<^item> \<open>DatabaseError\<close>: a database exception rethrown as it is.
\<close>

datatype amount_problem = Not_positive | Too_many_decimals

datatype key_conflict = Different_user | Different_type

datatype error =
    AccountNotFound
  | AccountNotActive status
  | InvalidAmount amount_problem
  | InsufficientFunds
  | DuplicateIdempotencyKey
  | IdempotencyKeyConflict key_conflict
  | UsernameExists
  | EmailExists
  | DatabaseError pg_error

text \<open>
  A JavaScript \<open>number\<close> holding an amount is taken as the decimal numeral that stands
  for it: \<open>Decimal m s\<close> is \<open>m / 10^s\<close>. The binary rounding of the arithmetic that
  produced the number is outside this model.
\<close>

datatype number = Decimal int nat

text \<open>
  \<open>Number.prototype.toString\<close> prints a positive number from its digits without trailing
  zeros, \<open>k\<close> of them, and the position \<open>n\<close> of the decimal point (the number is at
  least \<open>10^(n-1)\<close> and below \<open>10^n\<close>): for \<open>-6 < n \<le> 21\<close> in plain notation, with the
  fractional digits after the point; otherwise in exponent notation, as \<open>de-7\<close> for a
  single digit and as \<open>d.ddde-7\<close> for more. \<open>ndigits\<close> counts the digits of a positive
  integer, \<open>strip_zeros\<close> drops its trailing zeros, \<open>plain_places\<close> counts the fractional
  digits printed in plain notation.
\<close>

function ndigits :: "int \<Rightarrow> nat" where
  "ndigits n = (if n < 10 then 1 else Suc (ndigits (n div 10)))"
  by pat_completeness auto
termination
  by (relation "measure nat") auto

function strip_zeros :: "int \<Rightarrow> int" where
  "strip_zeros n = (if n \<le> 0 \<or> n mod 10 \<noteq> 0 then n else strip_zeros (n div 10))"
  by pat_completeness auto
termination
  by (relation "measure nat") auto

declare ndigits.simps [simp del] strip_zeros.simps [simp del]

fun plain_places :: "int \<Rightarrow> nat \<Rightarrow> nat" where
  "plain_places m 0 = 0"
| "plain_places m (Suc s) = (if m mod 10 = 0 then plain_places (m div 10) s else Suc s)"

text \<open>
  \<open>(amount.toString().split('.')[1] || '').length\<close>: the length of what follows the
  point in the printed number, which in exponent notation takes in the exponent
  (\<open>e\<close>, its sign and its digits), and is 0 where no point is printed.
\<close>

fun decimalPlaces :: "number \<Rightarrow> nat" where
  "decimalPlaces (Decimal m s) =
     (let n = int (ndigits \<bar>m\<bar>) - int s;
          k = ndigits (strip_zeros \<bar>m\<bar>)
      in if -6 < n \<and> n \<le> 21 then plain_places m s
         else if k = 1 then 0
         else (k - 1) + 2 + ndigits \<bar>n - 1\<bar>)"

declare decimalPlaces.simps [simp del]

text \<open>\<open>WalletService.validateAmount\<close>.\<close>

fun validateAmount :: "number \<Rightarrow> error + unit" where
  "validateAmount (Decimal m s) =
     (if m \<le> 0 then Inl (InvalidAmount Not_positive)
      else if decimalPlaces (Decimal m s) > 2 then Inl (InvalidAmount Too_many_decimals)
      else Inr ())"

text \<open>
  The number as the database receives it for a \<open>DECIMAL(15, 2)\<close> parameter: rounded to
  two fractional digits, halves away from zero.
\<close>

fun to_cents :: "number \<Rightarrow> cents" where
  "to_cents (Decimal m s) =
     (if s \<le> 2 then m * 10 ^ (2 - s)
      else sgn m * ((2 * \<bar>m\<bar> + 10 ^ (s - 2)) div (2 * 10 ^ (s - 2))))"

text \<open>\<open>UserService.validateUserExists\<close>.\<close>

definition validateUserExists :: "db \<Rightarrow> uuid \<Rightarrow> error + unit" where
  "validateUserExists d i =
     (case select_user d i of
        None \<Rightarrow> Inl AccountNotFound
      | Some user \<Rightarrow>
          if status user \<noteq> Active then Inl (AccountNotActive (status user)) else Inr ())"

text \<open>
  The TypeScript \<open>Transaction\<close>, as the repository hands it out. A timestamp column
  reaches JavaScript as a \<open>Date\<close> object; the other two shapes are what becomes of it.
  The amounts, strings from the database, are read back by \<open>parseFloat\<close> and kept here
  as cents.
\<close>

datatype js_timestamp = Date timestamp | Empty_object | ISO_string string

record transaction =
  tx_id :: uuid
  tx_userId :: uuid
  tx_transactionId :: string
  tx_type :: transaction_type
  tx_amount :: cents
  tx_balanceBefore :: cents
  tx_balanceAfter :: cents
  tx_description :: "string option"
  tx_metadata :: "json_object option"
  tx_processedAt :: js_timestamp
  tx_createdAt :: js_timestamp

text \<open>
  \<open>database.toCamelCase\<close>. A key is rewritten by
  \<open>key.replace(/_([a-z])/g, (_, letter) => letter.toUpperCase())\<close>. A value that is an
  object is copied property by property with \<open>for (const key in obj)\<close>: the metadata
  object keeps its entries under the rewritten keys (a later entry overwriting an earlier
  one of the same key; values are kept as text), and a \<open>Date\<close>, which has no enumerable
  property, becomes the empty object.
\<close>

fun camelKey :: "string \<Rightarrow> string" where
  "camelKey (a # b # cs) =
     (if a = CHR ''_'' \<and> 97 \<le> (of_char b :: nat) \<and> (of_char b :: nat) \<le> 122
        then char_of ((of_char b :: nat) - 32) # camelKey cs
      else a # camelKey (b # cs))"
| "camelKey cs = cs"

definition toCamelCase_object :: "json_object \<Rightarrow> json_object" where
  "toCamelCase_object obj = fold (\<lambda>(k, v). AList.update (camelKey k) v) obj []"

fun toCamelCase_timestamp :: "js_timestamp \<Rightarrow> js_timestamp" where
  "toCamelCase_timestamp (Date t) = Empty_object"
| "toCamelCase_timestamp Empty_object = Empty_object"
| "toCamelCase_timestamp (ISO_string s) = ISO_string s"

definition toCamelCase :: "transactions_row \<Rightarrow> transaction" where
  "toCamelCase row =
     \<lparr>tx_id = t_id row, tx_userId = user_id row, tx_transactionId = transaction_id row,
      tx_type = t_type row, tx_amount = amount row, tx_balanceBefore = balance_before row,
      tx_balanceAfter = balance_after row, tx_description = description row,
      tx_metadata = map_option toCamelCase_object (metadata row),
      tx_processedAt = toCamelCase_timestamp (Date (processed_at row)),
      tx_createdAt = toCamelCase_timestamp (Date (t_created_at row))\<rparr>"

text \<open>
  \<open>TransactionRepository.convertNumericFields\<close>. The test
  \<open>!processedAt || (typeof processedAt === 'object' && Object.keys(processedAt).length === 0)\<close>
  holds of the empty object, and of a \<open>Date\<close> as well; \<open>processedAt\<close> is then the
  current time, \<open>new Date().toISOString()\<close>, given here as \<open>now\<close>.
\<close>

fun missing_or_empty_object :: "js_timestamp \<Rightarrow> bool" where
  "missing_or_empty_object (Date t) = True"
| "missing_or_empty_object Empty_object = True"
| "missing_or_empty_object (ISO_string s) = (s = [])"

definition convertNumericFields :: "string \<Rightarrow> transactions_row \<Rightarrow> transaction" where
  "convertNumericFields now row =
     (let camelCaseData = toCamelCase row;
          processedAt = (if missing_or_empty_object (tx_processedAt camelCaseData)
                         then ISO_string now else tx_processedAt camelCaseData)
      in camelCaseData\<lparr>tx_processedAt := processedAt\<rparr>)"

text \<open>\<open>TransactionRepository.getTransactionByTransactionId\<close>.\<close>

definition getTransactionByTransactionId :: "db \<Rightarrow> env \<Rightarrow> string \<Rightarrow> transaction option" where
  "getTransactionByTransactionId d e transactionId =
     map_option (convertNumericFields (new_Date_toISOString e)) (select_transaction d transactionId)"

record create_transaction_request =
  ct_userId :: uuid
  ct_transactionId :: string
  ct_type :: transaction_type
  ct_amount :: number
  ct_description :: "string option"
  ct_metadata :: "json_object option"

text \<open>
  The \<open>catch\<close> of \<open>createTransaction\<close>: the two messages raised by the function are
  recognised, then the unique-violation code 23505; anything else is rethrown.
\<close>

fun translate_error :: "pg_error \<Rightarrow> error" where
  "translate_error (Raise_User_not_found i) = AccountNotFound"
| "translate_error (Raise_Insufficient_funds b a) = InsufficientFunds"
| "translate_error (Unique_violation c) = DuplicateIdempotencyKey"
| "translate_error err = DatabaseError err"

text \<open>
  \<open>TransactionRepository.createTransaction\<close>. \<open>description || null\<close> turns the empty
  string into \<open>null\<close>.
\<close>

definition or_null :: "string option \<Rightarrow> string option" where
  "or_null x = (case x of None \<Rightarrow> None | Some s \<Rightarrow> if s = [] then None else Some s)"

definition createTransaction ::
  "db \<Rightarrow> env \<Rightarrow> create_transaction_request \<Rightarrow> db \<times> (error + transaction)" where
  "createTransaction d e transactionData =
     (case query_process_transaction d e
             (ct_userId transactionData)
             (ct_transactionId transactionData)
             (ct_type transactionData)
             (to_cents (ct_amount transactionData))
             (or_null (ct_description transactionData))
             (ct_metadata transactionData) of
        (d', Inr r) \<Rightarrow> (d', Inr (convertNumericFields (new_Date_toISOString e) r))
      | (d', Inl err) \<Rightarrow> (d', Inl (translate_error err)))"

text \<open>\<open>CreditRequest\<close> and \<open>DebitRequest\<close>, which have the same fields.\<close>

record wallet_request =
  transactionId :: string
  req_amount :: number
  req_description :: "string option"
  req_metadata :: "json_object option"

definition creditUser :: "db \<Rightarrow> env \<Rightarrow> uuid \<Rightarrow> wallet_request \<Rightarrow> db \<times> (error + transaction)" where
  "creditUser d e userId request =
     (case getTransactionByTransactionId d e (transactionId request) of
        Some existingTransaction \<Rightarrow>
          if tx_userId existingTransaction \<noteq> userId
            then (d, Inl (IdempotencyKeyConflict Different_user))
          else if tx_type existingTransaction \<noteq> Credit
            then (d, Inl (IdempotencyKeyConflict Different_type))
          else (d, Inr existingTransaction)
      | None \<Rightarrow>
          (case validateUserExists d userId of
             Inl err \<Rightarrow> (d, Inl err)
           | Inr _ \<Rightarrow>
               (case validateAmount (req_amount request) of
                  Inl err \<Rightarrow> (d, Inl err)
                | Inr _ \<Rightarrow>
                    createTransaction d e
                      \<lparr>ct_userId = userId, ct_transactionId = transactionId request,
                       ct_type = Credit, ct_amount = req_amount request,
                       ct_description = req_description request,
                       ct_metadata = req_metadata request\<rparr>)))"

definition debitUser :: "db \<Rightarrow> env \<Rightarrow> uuid \<Rightarrow> wallet_request \<Rightarrow> db \<times> (error + transaction)" where
  "debitUser d e userId request =
     (case getTransactionByTransactionId d e (transactionId request) of
        Some existingTransaction \<Rightarrow>
          if tx_userId existingTransaction \<noteq> userId
            then (d, Inl (IdempotencyKeyConflict Different_user))
          else if tx_type existingTransaction \<noteq> Debit
            then (d, Inl (IdempotencyKeyConflict Different_type))
          else (d, Inr existingTransaction)
      | None \<Rightarrow>
          (case validateUserExists d userId of
             Inl err \<Rightarrow> (d, Inl err)
           | Inr _ \<Rightarrow>
               (case validateAmount (req_amount request) of
                  Inl err \<Rightarrow> (d, Inl err)
                | Inr _ \<Rightarrow>
                    createTransaction d e
                      \<lparr>ct_userId = userId, ct_transactionId = transactionId request,
                       ct_type = Debit, ct_amount = req_amount request,
                       ct_description = req_description request,
                       ct_metadata = req_metadata request\<rparr>)))"

text \<open>
  \<open>{ gameId, ...metadata }\<close>: the entries of \<open>metadata\<close> written over the \<open>gameId\<close>
  entry, which \<open>JSON.stringify\<close> drops when \<open>gameId\<close> is undefined.
\<close>

definition game_metadata :: "string option \<Rightarrow> json_object option \<Rightarrow> json_object" where
  "game_metadata gameId metadata' =
     fold (\<lambda>(k, v). AList.update k v)
       (case metadata' of None \<Rightarrow> [] | Some m \<Rightarrow> m)
       (case gameId of None \<Rightarrow> [] | Some g \<Rightarrow> [(''gameId'', g)])"

definition truthy :: "string option \<Rightarrow> bool" where
  "truthy x = (case x of None \<Rightarrow> False | Some s \<Rightarrow> s \<noteq> [])"

definition processWager ::
  "db \<Rightarrow> env \<Rightarrow> uuid \<Rightarrow> number \<Rightarrow> string option \<Rightarrow> json_object option \<Rightarrow>
   db \<times> (error + transaction)" where
  "processWager d e userId amount' gameId metadata' =
     (case validateUserExists d userId of
        Inl err \<Rightarrow> (d, Inl err)
      | Inr _ \<Rightarrow>
          createTransaction d e
            \<lparr>ct_userId = userId,
             ct_transactionId = ''wager_'' @ uuidv4 e @ ''_'' @ date_now e,
             ct_type = Wager, ct_amount = amount',
             ct_description = Some (if truthy gameId then ''Wager for game '' @ the gameId
                                    else ''Game wager''),
             ct_metadata = Some (game_metadata gameId metadata')\<rparr>)"

definition processPayout ::
  "db \<Rightarrow> env \<Rightarrow> uuid \<Rightarrow> number \<Rightarrow> string option \<Rightarrow> json_object option \<Rightarrow>
   db \<times> (error + transaction)" where
  "processPayout d e userId amount' gameId metadata' =
     (case validateUserExists d userId of
        Inl err \<Rightarrow> (d, Inl err)
      | Inr _ \<Rightarrow>
          createTransaction d e
            \<lparr>ct_userId = userId,
             ct_transactionId = ''payout_'' @ uuidv4 e @ ''_'' @ date_now e,
             ct_type = Payout, ct_amount = amount',
             ct_description = Some (if truthy gameId then ''Payout for game '' @ the gameId
                                    else ''Game payout''),
             ct_metadata = Some (game_metadata gameId metadata')\<rparr>)"

section \<open>Accounts: userRepository.ts\<close>




text \<open>\<open>UserRepository.updateUserStatus\<close>: the updated row, or \<open>null\<close>.\<close>

definition updateUserStatus :: "db \<Rightarrow> env \<Rightarrow> uuid \<Rightarrow> status \<Rightarrow> db \<times> users_row option" where
  "updateUserStatus d e i s =
     (let d' = d\<lparr>users := map (\<lambda>u. if u_id u = i
                     then u\<lparr>status := s, updated_at := current_timestamp e\<rparr>
                     else u) (users d)\<rparr>
      in (d', select_user d' i))"


section \<open>Query layer: getTransactions\<close>














section \<open>The scenarios of the specification as concrete states\<close>

definition account_1 :: users_row where
  "account_1 = \<lparr>u_id = 1, username = ''player1'', email = ''player1@example.com'',
     balance = 0, status = Active, role = Player, u_created_at = 1000, updated_at = 1000\<rparr>"

definition ledger_0 :: db where
  "ledger_0 = \<lparr>users = [account_1], transactions = []\<rparr>"

definition env_at :: "timestamp \<Rightarrow> uuid \<Rightarrow> env" where
  "env_at t i = \<lparr>current_timestamp = t, uuid_generate_v4 = i, uuidv4 = ''9f0c'',
     date_now = ''1700000000000'', new_Date_toISOString = ''2023-11-14T22:13:20.000Z''\<rparr>"

text \<open>The same, one minute later by the clock of the service.\<close>

definition env_later :: "timestamp \<Rightarrow> uuid \<Rightarrow> env" where
  "env_later t i = (env_at t i)\<lparr>date_now := ''1700000060000'',
     new_Date_toISOString := ''2023-11-14T22:14:20.000Z''\<rparr>"

text \<open>Scenario A: credit 100.50 with key k1 on the new account.\<close>

definition entry_k1 :: transactions_row where
  "entry_k1 = \<lparr>t_id = 101, user_id = 1, transaction_id = ''k1'', t_type = Credit,
     amount = 10050, balance_before = 0, balance_after = 10050, description = None,
     metadata = None, processed_at = 2000, t_created_at = 2000\<rparr>"

definition ledger_A :: db where
  "ledger_A = \<lparr>users = [account_1\<lparr>balance := 10050, updated_at := 2000\<rparr>],
     transactions = [entry_k1]\<rparr>"

text \<open>Scenario B: debit 50.25 with key k2.\<close>

definition entry_k2 :: transactions_row where
  "entry_k2 = \<lparr>t_id = 102, user_id = 1, transaction_id = ''k2'', t_type = Debit,
     amount = 5025, balance_before = 10050, balance_after = 5025, description = None,
     metadata = None, processed_at = 3000, t_created_at = 3000\<rparr>"

definition ledger_B :: db where
  "ledger_B = \<lparr>users = [account_1\<lparr>balance := 5025, updated_at := 3000\<rparr>],
     transactions = [entry_k1, entry_k2]\<rparr>"

text \<open>The two entries as the service returns them when it creates them.\<close>

definition tx_k1 :: transaction where
  "tx_k1 = \<lparr>tx_id = 101, tx_userId = 1, tx_transactionId = ''k1'', tx_type = Credit,
     tx_amount = 10050, tx_balanceBefore = 0, tx_balanceAfter = 10050, tx_description = None,
     tx_metadata = None, tx_processedAt = ISO_string ''2023-11-14T22:13:20.000Z'',
     tx_createdAt = Empty_object\<rparr>"

definition tx_k2 :: transaction where
  "tx_k2 = \<lparr>tx_id = 102, tx_userId = 1, tx_transactionId = ''k2'', tx_type = Debit,
     tx_amount = 5025, tx_balanceBefore = 10050, tx_balanceAfter = 5025, tx_description = None,
     tx_metadata = None, tx_processedAt = ISO_string ''2023-11-14T22:13:20.000Z'',
     tx_createdAt = Empty_object\<rparr>"

text \<open>The ledger of scenario B after an administrator has suspended the account.\<close>

definition ledger_B_suspended :: db where
  "ledger_B_suspended = fst (updateUserStatus ledger_B (env_at 3500 0) 1 Suspended)"





definition request_with :: "string \<Rightarrow> number \<Rightarrow> wallet_request" where
  "request_with k a = \<lparr>transactionId = k, req_amount = a, req_description = None,
     req_metadata = None\<rparr>"

section \<open>Properties of the transaction engine\<close>

lemma process_transaction_InrD:
  assumes "process_transaction d e i k ty a ds m = Inr (d', r)"
  obtains u nb d1 where "select_user d i = Some u"
    and "calculate_new_balance ty (balance u) a = Inr nb"
    and "r = \<lparr>t_id = uuid_generate_v4 e, user_id = i, transaction_id = k, t_type = ty,
              amount = a, balance_before = balance u, balance_after = nb,
              description = ds, metadata = m, processed_at = current_timestamp e,
              t_created_at = current_timestamp e\<rparr>"
    and "insert_transaction d r = Inr d1"
    and "update_user_balance d1 e i nb = Inr d'"
  using assms unfolding process_transaction_def
  by (auto simp: Let_def split: option.splits sum.splits)

lemma insert_transaction_InrD:
  assumes "insert_transaction d r = Inr d1"
  shows "d1 = d\<lparr>transactions := transactions d @ [r]\<rparr>"
    and "transaction_balance_consistency r" and "amount r > 0"
    and "balance_after r \<ge> 0" and "balance_before r \<ge> 0"
    and "transaction_id r \<notin> set (map transaction_id (transactions d))"
    and "t_id r \<notin> set (map t_id (transactions d))"
    and "length (transaction_id r) \<le> 100"
  using assms unfolding insert_transaction_def
  by (auto split: if_splits)

lemma select_user_transactions_update [simp]:
  "select_user (d\<lparr>transactions := ts\<rparr>) i = select_user d i"
  by (simp add: select_user_def)

lemma find_map_update:
  assumes "\<And>u. u_id (f u) = u_id u"
  shows "find (\<lambda>u. u_id u = i) (map (\<lambda>u. if u_id u = i then f u else u) us) =
         map_option f (find (\<lambda>u. u_id u = i) us)"
  using assms by (induction us) auto

lemma update_user_balance_InrD:
  assumes "update_user_balance d e i nb = Inr d'" and "select_user d i = Some u"
  shows "select_user d' i = Some (u\<lparr>balance := nb, updated_at := current_timestamp e\<rparr>)"
    and "transactions d' = transactions d" and "nb \<ge> 0"
  using assms unfolding update_user_balance_def
  by (auto split: if_splits simp: select_user_def find_map_update)

lemma calculate_new_balance_InrD:
  assumes "calculate_new_balance ty b a = Inr nb"
  shows "credit_class ty \<Longrightarrow> nb = b + a" and "debit_class ty \<Longrightarrow> nb = b - a"
    and "debit_class ty \<Longrightarrow> b - a \<ge> 0"
  using assms unfolding calculate_new_balance_def numeric_15_2_def credit_class_def debit_class_def
  by (auto split: if_splits sum.splits)








text \<open>
  Claim C1. When \<open>process_transaction\<close> succeeds on an existing account, the row it
  returns records as \<open>balance_before\<close> the balance read under the row lock, as
  \<open>balance_after\<close> that balance plus the amount for the credit-class types (credit,
  payout, bonus, refund) and minus the amount for the debit-class types (debit, wager),
  and the stored balance of the account is \<open>balance_after\<close> afterwards.
\<close>

theorem process_transaction_balance_bookkeeping:
  assumes "select_user d i = Some u"
    and "process_transaction d e i k ty a ds m = Inr (d', r)"
  shows "balance_before r = balance u
       \<and> (credit_class ty \<longrightarrow> balance_after r = balance u + a)
       \<and> (debit_class ty \<longrightarrow> balance_after r = balance u - a)
       \<and> user_id r = i \<and> transaction_id r = k \<and> t_type r = ty \<and> amount r = a
       \<and> select_user d' i =
           Some (u\<lparr>balance := balance_after r, updated_at := current_timestamp e\<rparr>)"
proof -
  from assms(2) obtain u' nb d1 where u': "select_user d i = Some u'"
    and nb: "calculate_new_balance ty (balance u') a = Inr nb"
    and r: "r = \<lparr>t_id = uuid_generate_v4 e, user_id = i, transaction_id = k, t_type = ty,
              amount = a, balance_before = balance u', balance_after = nb,
              description = ds, metadata = m, processed_at = current_timestamp e,
              t_created_at = current_timestamp e\<rparr>"
    and ins: "insert_transaction d r = Inr d1"
    and upd: "update_user_balance d1 e i nb = Inr d'"
    by (rule process_transaction_InrD)
  from u' assms(1) have [simp]: "u' = u" by simp
  have d1: "d1 = d\<lparr>transactions := transactions d @ [r]\<rparr>"
    using ins by (rule insert_transaction_InrD)
  have "select_user d1 i = Some u" using assms(1) d1 by simp
  with upd have "select_user d' i = Some (u\<lparr>balance := nb, updated_at := current_timestamp e\<rparr>)"
    by (rule update_user_balance_InrD)
  moreover have "balance_after r = nb" "balance_before r = balance u" "amount r = a" "t_type r = ty"
    "user_id r = i" "transaction_id r = k"
    using r by simp_all
  ultimately show ?thesis
    using calculate_new_balance_InrD[OF nb] by simp
qed

theorem process_transaction_balance_bookkeeping_witness:
  "select_user ledger_0 1 = Some account_1
   \<and> process_transaction ledger_0 (env_at 2000 101) 1 ''k1'' Credit 10050 None None
       = Inr (ledger_A, entry_k1)
   \<and> credit_class Credit
   \<and> balance_before entry_k1 = 0 \<and> balance_after entry_k1 = 0 + 10050
   \<and> select_user ledger_A 1 = Some (account_1\<lparr>balance := 10050, updated_at := 2000\<rparr>)
   \<and> select_user ledger_A 1 = Some (account_1\<lparr>balance := 10050, updated_at := 2000\<rparr>)
   \<and> process_transaction ledger_A (env_at 3000 102) 1 ''k2'' Debit 5025 None None
       = Inr (ledger_B, entry_k2)
   \<and> debit_class Debit
   \<and> balance_before entry_k2 = 10050 \<and> balance_after entry_k2 = 10050 - 5025
   \<and> select_user ledger_B 1 = Some (account_1\<lparr>balance := 5025, updated_at := 3000\<rparr>)"
proof -
  have a1: "select_user ledger_0 1 = Some account_1" by code_simp
  have a2: "process_transaction ledger_0 (env_at 2000 101) 1 ''k1'' Credit 10050 None None
       = Inr (ledger_A, entry_k1)" by code_simp
  have b1: "select_user ledger_A 1 = Some (account_1\<lparr>balance := 10050, updated_at := 2000\<rparr>)"
    by code_simp
  have b2: "process_transaction ledger_A (env_at 3000 102) 1 ''k2'' Debit 5025 None None
       = Inr (ledger_B, entry_k2)" by code_simp
  have c: "credit_class Credit" "debit_class Debit" by (simp_all add: credit_class_def debit_class_def)
  show ?thesis
    using process_transaction_balance_bookkeeping[OF a1 a2]
      process_transaction_balance_bookkeeping[OF b1 b2] a1 a2 b1 b2 c
    by (simp add: account_1_def env_at_def)
qed



section \<open>Properties of the ledger service\<close>

lemma process_transaction_success:
  assumes "process_transaction d e i k ty a ds m = Inr (d', r)"
  shows "transactions d' = transactions d @ [r]"
    and "users d' = map (\<lambda>u. if u_id u = i
           then u\<lparr>balance := balance_after r, updated_at := current_timestamp e\<rparr>
           else u) (users d)"
    and "user_id r = i" and "transaction_id r = k" and "t_type r = ty" and "amount r = a"
    and "0 < amount r" and "0 \<le> balance_after r" and "0 \<le> balance_before r"
    and "transaction_balance_consistency r"
    and "k \<notin> set (map transaction_id (transactions d))"
    and "\<exists>u. select_user d i = Some u \<and> balance_before r = balance u"
proof -
  from assms obtain u nb d1 where u: "select_user d i = Some u"
    and nb: "calculate_new_balance ty (balance u) a = Inr nb"
    and r: "r = \<lparr>t_id = uuid_generate_v4 e, user_id = i, transaction_id = k, t_type = ty,
              amount = a, balance_before = balance u, balance_after = nb,
              description = ds, metadata = m, processed_at = current_timestamp e,
              t_created_at = current_timestamp e\<rparr>"
    and ins: "insert_transaction d r = Inr d1"
    and upd: "update_user_balance d1 e i nb = Inr d'"
    by (rule process_transaction_InrD)
  note i = insert_transaction_InrD[OF ins]
  have u1: "select_user d1 i = Some u" using u i(1) by simp
  show "user_id r = i" "transaction_id r = k" "t_type r = ty" "amount r = a"
    using r by simp_all
  show "0 < amount r" "0 \<le> balance_after r" "0 \<le> balance_before r"
    "transaction_balance_consistency r"
    using i by simp_all
  show "k \<notin> set (map transaction_id (transactions d))"
    using i(6) r by simp
  show "\<exists>u. select_user d i = Some u \<and> balance_before r = balance u"
    using u r by simp
  have "d' = d1\<lparr>users := map (\<lambda>u. if u_id u = i
                  then u\<lparr>balance := nb, updated_at := current_timestamp e\<rparr>
                  else u) (users d1)\<rparr>"
    using upd u1 unfolding update_user_balance_def by (auto split: if_splits)
  then show "transactions d' = transactions d @ [r]"
    and "users d' = map (\<lambda>u. if u_id u = i
           then u\<lparr>balance := balance_after r, updated_at := current_timestamp e\<rparr>
           else u) (users d)"
    using i(1) r by simp_all
qed

lemma query_process_transaction_cases:
  "(\<exists>err. query_process_transaction d e i k ty a ds m = (d, Inl err)
       \<and> process_transaction d e i k ty a ds m = Inl err)
   \<or> (\<exists>d' r. query_process_transaction d e i k ty a ds m = (d', Inr r)
       \<and> process_transaction d e i k ty a ds m = Inr (d', r))"
  unfolding query_process_transaction_def
  by (cases "process_transaction d e i k ty a ds m") auto

lemma query_process_transaction_writes:
  "query_process_transaction d e i k ty a ds m \<noteq> (d, Inr r)"
proof
  assume "query_process_transaction d e i k ty a ds m = (d, Inr r)"
  then have "process_transaction d e i k ty a ds m = Inr (d, r)"
    using query_process_transaction_cases[of d e i k ty a ds m] by auto
  from process_transaction_success(1)[OF this] show False by simp
qed

lemma convertNumericFields_eq:
  "convertNumericFields now row = (toCamelCase row)\<lparr>tx_processedAt := ISO_string now\<rparr>"
  by (simp add: convertNumericFields_def toCamelCase_def)

lemma convertNumericFields_fields [simp]:
  "tx_id (convertNumericFields now row) = t_id row"
  "tx_userId (convertNumericFields now row) = user_id row"
  "tx_transactionId (convertNumericFields now row) = transaction_id row"
  "tx_type (convertNumericFields now row) = t_type row"
  "tx_amount (convertNumericFields now row) = amount row"
  "tx_balanceBefore (convertNumericFields now row) = balance_before row"
  "tx_balanceAfter (convertNumericFields now row) = balance_after row"
  "tx_description (convertNumericFields now row) = description row"
  "tx_processedAt (convertNumericFields now row) = ISO_string now"
  "tx_createdAt (convertNumericFields now row) = Empty_object"
  by (simp_all add: convertNumericFields_eq toCamelCase_def)

lemma convertNumericFields_again:
  "convertNumericFields now' row =
     (convertNumericFields now row)\<lparr>tx_processedAt := ISO_string now'\<rparr>"
  by (simp add: convertNumericFields_eq)

lemma createTransaction_cases:
  "(\<exists>err. createTransaction d e x = (d, Inl err))
   \<or> (\<exists>d' r. createTransaction d e x = (d', Inr (convertNumericFields (new_Date_toISOString e) r))
       \<and> process_transaction d e (ct_userId x) (ct_transactionId x) (ct_type x)
            (to_cents (ct_amount x)) (or_null (ct_description x)) (ct_metadata x) = Inr (d', r))"
  using query_process_transaction_cases[of d e "ct_userId x" "ct_transactionId x" "ct_type x"
      "to_cents (ct_amount x)" "or_null (ct_description x)" "ct_metadata x"]
  unfolding createTransaction_def
  by auto

lemma createTransaction_InrD:
  assumes "createTransaction d e x = (d', Inr t)"
  obtains r where "t = convertNumericFields (new_Date_toISOString e) r"
    and "process_transaction d e (ct_userId x) (ct_transactionId x) (ct_type x)
            (to_cents (ct_amount x)) (or_null (ct_description x)) (ct_metadata x) = Inr (d', r)"
  using assms createTransaction_cases[of d e x] by auto

lemma find_append_fresh:
  assumes "k \<notin> set (map f xs)" and "f r = k"
  shows "find (\<lambda>t. f t = k) (xs @ [r]) = Some r"
  using assms by (induction xs) auto

lemma find_append_Some:
  "find P xs = Some x \<Longrightarrow> find P (xs @ ys) = Some x"
  by (induction xs) (auto split: if_splits)

text \<open>
  What a successful \<open>creditUser\<close> or \<open>debitUser\<close> returns is the conversion of a row
  that the ledger holds afterwards under the key of the request.
\<close>

lemma createTransaction_stored:
  assumes "createTransaction d e x = (d', Inr t)"
  obtains r where "t = convertNumericFields (new_Date_toISOString e) r"
    and "select_transaction d' (ct_transactionId x) = Some r"
    and "user_id r = ct_userId x" and "t_type r = ct_type x"
proof -
  from assms obtain r where t: "t = convertNumericFields (new_Date_toISOString e) r"
    and p: "process_transaction d e (ct_userId x) (ct_transactionId x) (ct_type x)
            (to_cents (ct_amount x)) (or_null (ct_description x)) (ct_metadata x) = Inr (d', r)"
    by (rule createTransaction_InrD)
  note s = process_transaction_success[OF p]
  have "select_transaction d' (ct_transactionId x) = Some r"
    unfolding select_transaction_def s(1) using s(11) s(4) by (rule find_append_fresh)
  then show ?thesis using t s(3,5) that by blast
qed

lemma creditUser_InrD:
  assumes "creditUser d e i request = (d1, Inr t)"
  shows "(d1 = d \<and> getTransactionByTransactionId d e (transactionId request) = Some t
          \<and> tx_userId t = i \<and> tx_type t = Credit)
       \<or> (getTransactionByTransactionId d e (transactionId request) = None
          \<and> createTransaction d e \<lparr>ct_userId = i, ct_transactionId = transactionId request,
                       ct_type = Credit, ct_amount = req_amount request,
                       ct_description = req_description request,
                       ct_metadata = req_metadata request\<rparr> = (d1, Inr t))"
  using assms unfolding creditUser_def
  by (auto split: option.splits if_splits sum.splits)

lemma debitUser_InrD:
  assumes "debitUser d e i request = (d1, Inr t)"
  shows "(d1 = d \<and> getTransactionByTransactionId d e (transactionId request) = Some t
          \<and> tx_userId t = i \<and> tx_type t = Debit)
       \<or> (getTransactionByTransactionId d e (transactionId request) = None
          \<and> createTransaction d e \<lparr>ct_userId = i, ct_transactionId = transactionId request,
                       ct_type = Debit, ct_amount = req_amount request,
                       ct_description = req_description request,
                       ct_metadata = req_metadata request\<rparr> = (d1, Inr t))"
  using assms unfolding debitUser_def
  by (auto split: option.splits if_splits sum.splits)

lemma creditUser_stored:
  assumes "creditUser d e i request = (d1, Inr t)"
  obtains r where "t = convertNumericFields (new_Date_toISOString e) r"
    and "select_transaction d1 (transactionId request) = Some r"
    and "user_id r = i" and "t_type r = Credit"
proof -
  consider (replay) "d1 = d" "getTransactionByTransactionId d e (transactionId request) = Some t"
      "tx_userId t = i" "tx_type t = Credit"
    | (new) "createTransaction d e \<lparr>ct_userId = i, ct_transactionId = transactionId request,
                       ct_type = Credit, ct_amount = req_amount request,
                       ct_description = req_description request,
                       ct_metadata = req_metadata request\<rparr> = (d1, Inr t)"
    using creditUser_InrD[OF assms] by blast
  then show ?thesis
  proof cases
    case replay
    then show ?thesis
      using that unfolding getTransactionByTransactionId_def by auto
  next
    case new
    then obtain r where "t = convertNumericFields (new_Date_toISOString e) r"
      and "select_transaction d1 (transactionId request) = Some r"
      and "user_id r = i" and "t_type r = Credit"
      by (rule createTransaction_stored) simp
    then show ?thesis using that by blast
  qed
qed

lemma debitUser_stored:
  assumes "debitUser d e i request = (d1, Inr t)"
  obtains r where "t = convertNumericFields (new_Date_toISOString e) r"
    and "select_transaction d1 (transactionId request) = Some r"
    and "user_id r = i" and "t_type r = Debit"
proof -
  consider (replay) "d1 = d" "getTransactionByTransactionId d e (transactionId request) = Some t"
      "tx_userId t = i" "tx_type t = Debit"
    | (new) "createTransaction d e \<lparr>ct_userId = i, ct_transactionId = transactionId request,
                       ct_type = Debit, ct_amount = req_amount request,
                       ct_description = req_description request,
                       ct_metadata = req_metadata request\<rparr> = (d1, Inr t)"
    using debitUser_InrD[OF assms] by blast
  then show ?thesis
  proof cases
    case replay
    then show ?thesis
      using that unfolding getTransactionByTransactionId_def by auto
  next
    case new
    then obtain r where "t = convertNumericFields (new_Date_toISOString e) r"
      and "select_transaction d1 (transactionId request) = Some r"
      and "user_id r = i" and "t_type r = Debit"
      by (rule createTransaction_stored) simp
    then show ?thesis using that by blast
  qed
qed

lemma creditUser_replay:
  assumes "getTransactionByTransactionId d e (transactionId request) = Some t"
    and "tx_userId t = i" and "tx_type t = Credit"
  shows "creditUser d e i request = (d, Inr t)"
  using assms unfolding creditUser_def by simp

lemma debitUser_replay:
  assumes "getTransactionByTransactionId d e (transactionId request) = Some t"
    and "tx_userId t = i" and "tx_type t = Debit"
  shows "debitUser d e i request = (d, Inr t)"
  using assms unfolding debitUser_def by simp

lemma lookup_later:
  assumes "select_transaction d1 k = Some r"
    and "transactions d2 = transactions d1 @ later"
  shows "getTransactionByTransactionId d2 e k = Some (convertNumericFields (new_Date_toISOString e) r)"
proof -
  have "select_transaction d2 k = Some r"
    using assms(1) unfolding select_transaction_def assms(2) by (rule find_append_Some)
  then show ?thesis by (simp add: getTransactionByTransactionId_def)
qed

lemma select_user_after_process_transaction:
  assumes "process_transaction d e i k ty a ds m = Inr (d', r)" and "select_user d i = Some u"
  shows "select_user d' i = Some (u\<lparr>balance := balance_after r, updated_at := current_timestamp e\<rparr>)"
  using assms(2) unfolding select_user_def process_transaction_success(2)[OF assms(1)]
  by (simp add: find_map_update)

lemma createTransaction_balance:
  assumes "createTransaction d e x = (d', Inr t)"
  shows "\<exists>u. select_user d (ct_userId x) = Some u
           \<and> select_user d' (ct_userId x) =
               Some (u\<lparr>balance := tx_balanceAfter t, updated_at := current_timestamp e\<rparr>)
           \<and> tx_balanceBefore t = balance u \<and> 0 < tx_amount t
           \<and> (credit_class (ct_type x) \<longrightarrow> tx_balanceAfter t = balance u + tx_amount t)
           \<and> (debit_class (ct_type x) \<longrightarrow> tx_balanceAfter t = balance u - tx_amount t)"
proof -
  from assms obtain r where t: "t = convertNumericFields (new_Date_toISOString e) r"
    and p: "process_transaction d e (ct_userId x) (ct_transactionId x) (ct_type x)
            (to_cents (ct_amount x)) (or_null (ct_description x)) (ct_metadata x) = Inr (d', r)"
    by (rule createTransaction_InrD)
  note s = process_transaction_success[OF p]
  from s(12) obtain u where u: "select_user d (ct_userId x) = Some u" "balance_before r = balance u"
    by blast
  have "credit_class (ct_type x) \<Longrightarrow> balance_after r = balance u + amount r"
    and "debit_class (ct_type x) \<Longrightarrow> balance_after r = balance u - amount r"
    using s(5,10) u(2)
    by (auto simp: transaction_balance_consistency_def credit_class_def debit_class_def)
  then show ?thesis
    using u select_user_after_process_transaction[OF p u(1)] s(7) t by simp
qed

text \<open>
  Replay. When \<open>creditUser\<close> (or \<open>debitUser\<close>) has returned an entry for a key, a later
  call with the same key, account and operation, at once or after the ledger has grown,
  finds the stored row in its idempotency lookup and returns it before the call to the
  transaction engine: the database is left as it was found (the engine, had it run and
  returned, would have written: last conjunct), and where the first call created the
  entry, it moved the balance by the positive amount of the entry, once. The entry
  returned is the entry of the first call in every field but \<open>processedAt\<close>, which is
  the time of the response that carries it.
\<close>

lemma replay_returns_stored_entry:
  assumes "transactionId request' = transactionId request"
    and "transactions d2 = transactions d1 @ later"
  shows "(creditUser d e i request = (d1, Inr t) \<longrightarrow>
            creditUser d2 e' i request' =
              (d2, Inr (t\<lparr>tx_processedAt := ISO_string (new_Date_toISOString e')\<rparr>))
          \<and> tx_processedAt t = ISO_string (new_Date_toISOString e)
          \<and> (getTransactionByTransactionId d e (transactionId request) = None \<longrightarrow>
               (\<exists>u. select_user d i = Some u \<and> 0 < tx_amount t
                  \<and> select_user d1 i = Some (u\<lparr>balance := balance u + tx_amount t,
                                                updated_at := current_timestamp e\<rparr>))))
       \<and> (debitUser d e i request = (d1, Inr t) \<longrightarrow>
            debitUser d2 e' i request' =
              (d2, Inr (t\<lparr>tx_processedAt := ISO_string (new_Date_toISOString e')\<rparr>))
          \<and> tx_processedAt t = ISO_string (new_Date_toISOString e)
          \<and> (getTransactionByTransactionId d e (transactionId request) = None \<longrightarrow>
               (\<exists>u. select_user d i = Some u \<and> 0 < tx_amount t
                  \<and> select_user d1 i = Some (u\<lparr>balance := balance u - tx_amount t,
                                                updated_at := current_timestamp e\<rparr>))))
       \<and> query_process_transaction d2 e2 i2 k2 ty2 a2 ds2 m2 \<noteq> (d2, Inr r2)"
proof (intro conjI impI)
  assume c: "creditUser d e i request = (d1, Inr t)"
  then obtain r where t: "t = convertNumericFields (new_Date_toISOString e) r"
    and r: "select_transaction d1 (transactionId request) = Some r"
      "user_id r = i" "t_type r = Credit"
    by (rule creditUser_stored)
  let ?t' = "convertNumericFields (new_Date_toISOString e') r"
  have "getTransactionByTransactionId d2 e' (transactionId request') = Some ?t'"
    unfolding assms(1) using r(1) assms(2) by (rule lookup_later)
  then have "creditUser d2 e' i request' = (d2, Inr ?t')"
    using r(2,3) by (intro creditUser_replay) simp_all
  then show "creditUser d2 e' i request' =
              (d2, Inr (t\<lparr>tx_processedAt := ISO_string (new_Date_toISOString e')\<rparr>))"
    unfolding t using convertNumericFields_again[of "new_Date_toISOString e'" r] by simp
  show "tx_processedAt t = ISO_string (new_Date_toISOString e)" unfolding t by simp
  assume "getTransactionByTransactionId d e (transactionId request) = None"
  with creditUser_InrD[OF c]
  have "createTransaction d e \<lparr>ct_userId = i, ct_transactionId = transactionId request,
                       ct_type = Credit, ct_amount = req_amount request,
                       ct_description = req_description request,
                       ct_metadata = req_metadata request\<rparr> = (d1, Inr t)"
    by simp
  from createTransaction_balance[OF this]
  show "\<exists>u. select_user d i = Some u \<and> 0 < tx_amount t
          \<and> select_user d1 i = Some (u\<lparr>balance := balance u + tx_amount t,
                                        updated_at := current_timestamp e\<rparr>)"
    by (auto simp: credit_class_def)
next
  assume c: "debitUser d e i request = (d1, Inr t)"
  then obtain r where t: "t = convertNumericFields (new_Date_toISOString e) r"
    and r: "select_transaction d1 (transactionId request) = Some r"
      "user_id r = i" "t_type r = Debit"
    by (rule debitUser_stored)
  let ?t' = "convertNumericFields (new_Date_toISOString e') r"
  have "getTransactionByTransactionId d2 e' (transactionId request') = Some ?t'"
    unfolding assms(1) using r(1) assms(2) by (rule lookup_later)
  then have "debitUser d2 e' i request' = (d2, Inr ?t')"
    using r(2,3) by (intro debitUser_replay) simp_all
  then show "debitUser d2 e' i request' =
              (d2, Inr (t\<lparr>tx_processedAt := ISO_string (new_Date_toISOString e')\<rparr>))"
    unfolding t using convertNumericFields_again[of "new_Date_toISOString e'" r] by simp
  show "tx_processedAt t = ISO_string (new_Date_toISOString e)" unfolding t by simp
  assume "getTransactionByTransactionId d e (transactionId request) = None"
  with debitUser_InrD[OF c]
  have "createTransaction d e \<lparr>ct_userId = i, ct_transactionId = transactionId request,
                       ct_type = Debit, ct_amount = req_amount request,
                       ct_description = req_description request,
                       ct_metadata = req_metadata request\<rparr> = (d1, Inr t)"
    by simp
  from createTransaction_balance[OF this]
  show "\<exists>u. select_user d i = Some u \<and> 0 < tx_amount t
          \<and> select_user d1 i = Some (u\<lparr>balance := balance u - tx_amount t,
                                        updated_at := current_timestamp e\<rparr>)"
    by (auto simp: debit_class_def)
next
  show "query_process_transaction d2 e2 i2 k2 ty2 a2 ds2 m2 \<noteq> (d2, Inr r2)"
    by (rule query_process_transaction_writes)
qed

text \<open>
  Claim C3 at a concrete replay. A credit of 100.50 with key k1 returns its entry; the same
  request a minute later returns the same stored row, the ledger and the balance
  untouched, but the two entries returned differ in \<open>processedAt\<close>: each carries the
  time at which it was read, not the time at which the transaction was processed.
  The same holds of the debit of 50.25 with key k2.
\<close>

theorem replay_processedAt_differs:
  "creditUser ledger_0 (env_at 2000 101) 1 (request_with ''k1'' (Decimal 10050 2))
     = (ledger_A, Inr tx_k1)
   \<and> creditUser ledger_A (env_later 2500 110) 1 (request_with ''k1'' (Decimal 10050 2))
     = (ledger_A, Inr (tx_k1\<lparr>tx_processedAt := ISO_string ''2023-11-14T22:14:20.000Z''\<rparr>))
   \<and> tx_k1\<lparr>tx_processedAt := ISO_string ''2023-11-14T22:14:20.000Z''\<rparr> \<noteq> tx_k1
   \<and> debitUser ledger_A (env_at 3000 102) 1 (request_with ''k2'' (Decimal 5025 2))
     = (ledger_B, Inr tx_k2)
   \<and> debitUser ledger_B (env_later 3500 111) 1 (request_with ''k2'' (Decimal 5025 2))
     = (ledger_B, Inr (tx_k2\<lparr>tx_processedAt := ISO_string ''2023-11-14T22:14:20.000Z''\<rparr>))
   \<and> tx_k2\<lparr>tx_processedAt := ISO_string ''2023-11-14T22:14:20.000Z''\<rparr> \<noteq> tx_k2"
  by code_simp

text \<open>
  Claim C7. When the key of a \<open>creditUser\<close> or \<open>debitUser\<close> call already has an entry
  and that entry belongs to another account or has another type than the operation, the
  call fails with an idempotency key conflict ("Transaction ID belongs to a different
  user", else "Transaction ID already used for a different operation type") and the
  database is unchanged.
\<close>

theorem idempotency_key_conflict:
  assumes "getTransactionByTransactionId d e (transactionId request) = Some t"
  shows "(tx_userId t \<noteq> i \<or> tx_type t \<noteq> Credit \<longrightarrow>
            creditUser d e i request =
              (d, Inl (IdempotencyKeyConflict
                         (if tx_userId t \<noteq> i then Different_user else Different_type))))
       \<and> (tx_userId t \<noteq> i \<or> tx_type t \<noteq> Debit \<longrightarrow>
            debitUser d e i request =
              (d, Inl (IdempotencyKeyConflict
                         (if tx_userId t \<noteq> i then Different_user else Different_type))))"
  using assms unfolding creditUser_def debitUser_def by auto

theorem idempotency_key_conflict_witness:
  "getTransactionByTransactionId ledger_B (env_at 4000 103)
     (transactionId (request_with ''k1'' (Decimal 10050 2))) = Some tx_k1
   \<and> tx_userId tx_k1 \<noteq> 2 \<and> tx_type tx_k1 \<noteq> Debit
   \<and> creditUser ledger_B (env_at 4000 103) 2 (request_with ''k1'' (Decimal 10050 2))
       = (ledger_B, Inl (IdempotencyKeyConflict Different_user))
   \<and> debitUser ledger_B (env_at 4000 103) 1 (request_with ''k1'' (Decimal 10050 2))
       = (ledger_B, Inl (IdempotencyKeyConflict Different_type))"
proof -
  have l: "getTransactionByTransactionId ledger_B (env_at 4000 103)
     (transactionId (request_with ''k1'' (Decimal 10050 2))) = Some tx_k1" by code_simp
  have n: "tx_userId tx_k1 \<noteq> 2" "tx_type tx_k1 \<noteq> Debit" "tx_userId tx_k1 = 1"
    by (simp_all add: tx_k1_def)
  show ?thesis
    using idempotency_key_conflict[OF l, of 2] idempotency_key_conflict[OF l, of 1] l n
    by simp
qed

lemma createTransaction_unknown_user:
  assumes "select_user d (ct_userId x) = None"
  shows "createTransaction d e x = (d, Inl AccountNotFound)"
  using assms
  unfolding createTransaction_def query_process_transaction_def process_transaction_def
  by simp

text \<open>
  Claim C8. When no entry exists for the key, an operation on an account that does not
  exist fails with \<open>AccountNotFound\<close>, and an operation on an account whose status is not
  \<open>active\<close> fails with \<open>AccountNotActive\<close>; the database is unchanged in both cases.
  This holds of all four operations (\<open>processWager\<close> and \<open>processPayout\<close> make no
  lookup of the key), and the engine itself refuses an unknown account in the same way.
\<close>

theorem account_not_found_or_not_active:
  assumes "getTransactionByTransactionId d e (transactionId request) = None"
  shows "(select_user d i = None \<longrightarrow>
            creditUser d e i request = (d, Inl AccountNotFound)
          \<and> debitUser d e i request = (d, Inl AccountNotFound)
          \<and> processWager d e i a gameId m = (d, Inl AccountNotFound)
          \<and> processPayout d e i a gameId m = (d, Inl AccountNotFound)
          \<and> (ct_userId x = i \<longrightarrow> createTransaction d e x = (d, Inl AccountNotFound)))
       \<and> (select_user d i = Some u \<and> status u \<noteq> Active \<longrightarrow>
            creditUser d e i request = (d, Inl (AccountNotActive (status u)))
          \<and> debitUser d e i request = (d, Inl (AccountNotActive (status u)))
          \<and> processWager d e i a gameId m = (d, Inl (AccountNotActive (status u)))
          \<and> processPayout d e i a gameId m = (d, Inl (AccountNotActive (status u))))"
  using assms createTransaction_unknown_user[of d x e]
  unfolding creditUser_def debitUser_def processWager_def processPayout_def validateUserExists_def
  by auto

theorem account_not_found_or_not_active_witness:
  "getTransactionByTransactionId ledger_B_suspended (env_at 4000 103)
     (transactionId (request_with ''k5'' (Decimal 100 2))) = None
   \<and> select_user ledger_B_suspended 2 = None
   \<and> creditUser ledger_B_suspended (env_at 4000 103) 2 (request_with ''k5'' (Decimal 100 2))
       = (ledger_B_suspended, Inl AccountNotFound)
   \<and> processWager ledger_B_suspended (env_at 4000 103) 2 (Decimal 100 2) None None
       = (ledger_B_suspended, Inl AccountNotFound)
   \<and> select_user ledger_B_suspended 1
       = Some (account_1\<lparr>balance := 5025, status := Suspended, updated_at := 3500\<rparr>)
   \<and> debitUser ledger_B_suspended (env_at 4000 103) 1 (request_with ''k5'' (Decimal 100 2))
       = (ledger_B_suspended, Inl (AccountNotActive Suspended))
   \<and> processPayout ledger_B_suspended (env_at 4000 103) 1 (Decimal 100 2) None None
       = (ledger_B_suspended, Inl (AccountNotActive Suspended))"
proof -
  let ?u = "account_1\<lparr>balance := 5025, status := Suspended, updated_at := 3500\<rparr>"
  have l: "getTransactionByTransactionId ledger_B_suspended (env_at 4000 103)
             (transactionId (request_with ''k5'' (Decimal 100 2))) = None"
    by code_simp
  have n: "select_user ledger_B_suspended 2 = None" by code_simp
  have s: "select_user ledger_B_suspended 1 = Some ?u" by code_simp
  have st: "status ?u \<noteq> Active" "status ?u = Suspended" by simp_all
  show ?thesis
    using account_not_found_or_not_active[OF l, where i = 2
          and a = "Decimal 100 2" and gameId = None and m = None]
      account_not_found_or_not_active[OF l, where i = 1 and u = ?u
          and a = "Decimal 100 2" and gameId = None and m = None]
      l n s st
    by simp
qed



lemma ndigits_bounds: "0 < n \<Longrightarrow> 10 ^ (ndigits n - 1) \<le> n \<and> n < 10 ^ ndigits n"
proof (induction n rule: ndigits.induct)
  case (1 n)
  show ?case
  proof (cases "n < 10")
    case True
    then show ?thesis using 1(2) by (simp add: ndigits.simps)
  next
    case False
    then have pos: "0 < n div 10" by simp
    from 1(1)[OF False pos] have ih: "10 ^ (ndigits (n div 10) - 1) \<le> n div 10"
      "n div 10 < 10 ^ ndigits (n div 10)" by simp_all
    have nd: "ndigits n = Suc (ndigits (n div 10))" using False by (simp add: ndigits.simps)
    have ge1: "1 \<le> ndigits (n div 10)" by (subst ndigits.simps) simp
    have "(10::int) ^ (ndigits n - 1) = 10 * 10 ^ (ndigits (n div 10) - 1)"
      using nd ge1 by (cases "ndigits (n div 10)") simp_all
    also have "\<dots> \<le> 10 * (n div 10)" using ih(1) by simp
    also have "\<dots> \<le> n" by simp
    finally have a: "10 ^ (ndigits n - 1) \<le> n" .
    have "n < 10 * (n div 10) + 10" by presburger
    also have "\<dots> \<le> 10 * 10 ^ ndigits (n div 10)" using ih(2) by simp
    finally have b: "n < 10 ^ ndigits n" using nd by simp
    show ?thesis using a b by simp
  qed
qed

lemma ndigits_pos: "1 \<le> ndigits n"
  by (subst ndigits.simps) simp

lemma strip_zeros_decompose:
  "0 < n \<Longrightarrow> \<exists>z. n = strip_zeros n * 10 ^ z \<and> ndigits n = ndigits (strip_zeros n) + z"
proof (induction n rule: strip_zeros.induct)
  case (1 n)
  show ?case
  proof (cases "n mod 10 \<noteq> 0")
    case True
    then have "strip_zeros n = n" by (simp add: strip_zeros.simps)
    then show ?thesis by (intro exI[of _ 0]) simp
  next
    case False
    then have m: "n mod 10 = 0" by simp
    with 1(2) have ge: "\<not> n < 10" by presburger
    have pos: "0 < n div 10" using ge by simp
    have cond: "\<not> (n \<le> 0 \<or> n mod 10 \<noteq> 0)" using 1(2) m by simp
    from 1(1)[OF cond pos] obtain z where z: "n div 10 = strip_zeros (n div 10) * 10 ^ z"
      "ndigits (n div 10) = ndigits (strip_zeros (n div 10)) + z" by blast
    have s: "strip_zeros n = strip_zeros (n div 10)" using cond by (subst strip_zeros.simps) simp
    have n: "n = 10 * (n div 10)" using m by presburger
    have "n = strip_zeros n * 10 ^ Suc z" using z(1) s n by simp
    moreover have "ndigits n = ndigits (strip_zeros n) + Suc z"
      using ge z(2) s by (subst ndigits.simps) simp
    ultimately show ?thesis by blast
  qed
qed

lemma plain_places_gt_2_iff:
  "plain_places m s > 2 \<longleftrightarrow> \<not> 10 ^ s dvd m * 100"
proof (induction m s rule: plain_places.induct)
  case (1 m)
  then show ?case by simp
next
  case (2 m s)
  show ?case
  proof (cases "m mod 10 = 0")
    case True
    then obtain q where q: "m = 10 * q" by (auto simp: mod_eq_0_iff_dvd)
    have "(10::int) ^ Suc s dvd m * 100 \<longleftrightarrow> 10 ^ s dvd q * 100"
      unfolding q using dvd_mult_cancel_left[of "10::int" "10 ^ s" "q * 100"] by simp
    then show ?thesis using True 2 q by simp
  next
    case False
    show ?thesis
    proof (cases "s < 2")
      case True
      then have "s = 0 \<or> s = 1" by auto
      then have "(10::int) ^ Suc s dvd 100" by auto
      then have "(10::int) ^ Suc s dvd m * 100" by simp
      then show ?thesis using False True by simp
    next
      case f: False
      then obtain j where j: "s = Suc (Suc j)" by (cases s; cases "s - 1") auto
      have "\<not> (10::int) ^ Suc s dvd m * 100"
      proof
        assume a: "(10::int) ^ Suc s dvd m * 100"
        have e: "(10::int) ^ Suc s = 10 ^ Suc j * 100" by (simp add: j)
        from a have "(10::int) ^ Suc j * 100 dvd m * 100" unfolding e .
        then have "(10::int) ^ Suc j dvd m"
          by (metis dvd_mult_cancel_right zero_neq_numeral)
        then have "(10::int) dvd m"
          by (metis dvd_mult_left power_Suc)
        with False show False by (simp add: mod_eq_0_iff_dvd)
      qed
      then show ?thesis using False f by simp
    qed
  qed
qed

text \<open>
  The count for 100.5, 12.345, 0.000001, and for 1e-7 and 1.5e-7, which are printed in
  exponent notation.
\<close>

lemma decimalPlaces_examples:
  "decimalPlaces (Decimal 10050 2) = 1"
  "decimalPlaces (Decimal 12345 3) = 3"
  "decimalPlaces (Decimal 1 6) = 6"
  "decimalPlaces (Decimal 1 7) = 0"
  "decimalPlaces (Decimal 15 8) = 4"
  by code_simp+

text \<open>
  An amount of at least 0.000001 that is not a whole number of cents is printed with
  more than two characters after the point.
\<close>

lemma decimalPlaces_gt_2:
  assumes "0 < m" and "10 ^ s \<le> m * 10 ^ 6" and "\<not> 10 ^ s dvd m * 100"
  shows "decimalPlaces (Decimal m s) > 2"
proof -
  define K where "K = ndigits m"
  define k where "k = ndigits (strip_zeros m)"
  have abs: "\<bar>m\<bar> = m" using assms(1) by simp
  have b: "m < 10 ^ K" using ndigits_bounds[OF assms(1)] by (simp add: K_def)
  note assms(2)
  also have "m * 10 ^ 6 < 10 ^ K * 10 ^ 6" using b by simp
  also have "(10::int) ^ K * 10 ^ 6 = 10 ^ (K + 6)" by (simp add: power_add)
  finally have "(10::int) ^ s < 10 ^ (K + 6)" .
  then have "s < K + 6" using power_less_imp_less_exp[of "10::int" s "K + 6"] by simp
  then have low: "-6 < int K - int s" by simp
  show ?thesis
  proof (cases "int K - int s \<le> 21")
    case True
    then have "decimalPlaces (Decimal m s) = plain_places m s"
      using low by (simp add: decimalPlaces.simps abs K_def Let_def)
    then show ?thesis using assms(3) plain_places_gt_2_iff[of m s] by simp
  next
    case False
    from strip_zeros_decompose[OF assms(1)] obtain z
      where z: "m = strip_zeros m * 10 ^ z" "K = k + z" by (auto simp: K_def k_def)
    have "k \<noteq> 1"
    proof
      assume "k = 1"
      then have "s \<le> z" using False z(2) by simp
      then have "(10::int) ^ s dvd 10 ^ z" by (simp add: le_imp_power_dvd)
      then have "(10::int) ^ s dvd m" using z(1) by (metis dvd_mult)
      then show False using assms(3) by simp
    qed
    moreover have "1 \<le> k" unfolding k_def by (rule ndigits_pos)
    ultimately have "2 \<le> k" by simp
    moreover have "1 \<le> ndigits \<bar>int K - int s - 1\<bar>" by (rule ndigits_pos)
    moreover have "decimalPlaces (Decimal m s) = (k - 1) + 2 + ndigits \<bar>int K - int s - 1\<bar>"
      using False \<open>k \<noteq> 1\<close> by (simp add: decimalPlaces.simps abs K_def k_def Let_def)
    ultimately show ?thesis by simp
  qed
qed

text \<open>
  Claim C6, amended. For \<open>creditUser\<close> and \<open>debitUser\<close>, when no entry exists for the
  key and the account exists and is active, an amount that is not positive, or that is at
  least 0.000001 and has more than two fractional digits (100 times the amount is not an
  integer), is refused with \<open>InvalidAmount\<close>, and the database is unchanged.
\<close>

theorem invalid_amount_rejected:
  assumes "getTransactionByTransactionId d e (transactionId request) = None"
    and "select_user d i = Some u" and "status u = Active"
    and "req_amount request = Decimal m s"
    and "m \<le> 0 \<or> (10 ^ s \<le> m * 10 ^ 6 \<and> \<not> 10 ^ s dvd m * 100)"
  shows "creditUser d e i request =
           (d, Inl (InvalidAmount (if m \<le> 0 then Not_positive else Too_many_decimals)))
       \<and> debitUser d e i request =
           (d, Inl (InvalidAmount (if m \<le> 0 then Not_positive else Too_many_decimals)))"
proof -
  have "validateAmount (req_amount request) =
          Inl (InvalidAmount (if m \<le> 0 then Not_positive else Too_many_decimals))"
  proof (cases "m \<le> 0")
    case True
    then show ?thesis using assms(4) by simp
  next
    case False
    then have "0 < m" by simp
    moreover from False assms(5) have "10 ^ s \<le> m * 10 ^ 6" and "\<not> 10 ^ s dvd m * 100"
      by blast+
    ultimately have "decimalPlaces (Decimal m s) > 2" by (rule decimalPlaces_gt_2)
    then show ?thesis using False assms(4) by simp
  qed
  then show ?thesis
    using assms(1-3) unfolding creditUser_def debitUser_def validateUserExists_def by simp
qed

theorem invalid_amount_rejected_witness:
  "getTransactionByTransactionId ledger_A (env_at 4000 103)
     (transactionId (request_with ''k4'' (Decimal 12345 3))) = None
   \<and> select_user ledger_A 1 = Some (account_1\<lparr>balance := 10050, updated_at := 2000\<rparr>)
   \<and> (10::int) ^ 3 \<le> 12345 * 10 ^ 6 \<and> \<not> (10::int) ^ 3 dvd 12345 * 100
   \<and> creditUser ledger_A (env_at 4000 103) 1 (request_with ''k4'' (Decimal 12345 3))
       = (ledger_A, Inl (InvalidAmount Too_many_decimals))
   \<and> debitUser ledger_A (env_at 4000 103) 1 (request_with ''k4'' (Decimal 0 0))
       = (ledger_A, Inl (InvalidAmount Not_positive))"
proof -
  let ?u = "account_1\<lparr>balance := 10050, updated_at := 2000\<rparr>"
  have l: "getTransactionByTransactionId ledger_A (env_at 4000 103)
             (transactionId (request_with ''k4'' (Decimal 12345 3))) = None" by code_simp
  have l0: "getTransactionByTransactionId ledger_A (env_at 4000 103)
             (transactionId (request_with ''k4'' (Decimal 0 0))) = None" by code_simp
  have u: "select_user ledger_A 1 = Some ?u" by code_simp
  have a: "status ?u = Active" by (simp add: account_1_def)
  have r: "req_amount (request_with ''k4'' (Decimal 12345 3)) = Decimal 12345 3"
    "req_amount (request_with ''k4'' (Decimal 0 0)) = Decimal 0 0"
    by (simp_all add: request_with_def)
  have n: "(10::int) ^ 3 \<le> 12345 * 10 ^ 6 \<and> \<not> (10::int) ^ 3 dvd 12345 * 100" by simp
  have z: "(0::int) \<le> 0 \<or> ((10::int) ^ 0 \<le> 0 * 10 ^ 6 \<and> \<not> 10 ^ 0 dvd (0::int) * 100)"
    by simp
  show ?thesis
    using invalid_amount_rejected[OF l u a r(1) disjI2[OF n]]
      invalid_amount_rejected[OF l0 u a r(2) z] l u n
    by simp
qed

text \<open>
  Claim C6 as stated fails. \<open>processWager\<close> and \<open>processPayout\<close> do not validate the
  amount: a wager of -5 reaches the database and is refused there by
  \<open>CHECK (amount > 0)\<close>, an error of another kind, and a payout of 1.004 is rounded to
  1.00 and succeeds. For \<open>creditUser\<close>, the account is validated before the amount, so
  an invalid amount for an unknown account gives \<open>AccountNotFound\<close>; and the amount
  0.0000001, printed as \<open>1e-7\<close> with no decimal point, passes \<open>validateAmount\<close>, is
  rounded to 0.00 and is refused by the same CHECK constraint.
\<close>

theorem invalid_amount_counterexample:
  "processWager ledger_A (env_at 4000 103) 1 (Decimal (-5) 0) None None
     = (ledger_A, Inl (DatabaseError (Check_violation ''transactions_amount_check'')))
   \<and> processPayout ledger_A (env_at 4000 103) 1 (Decimal 1004 3) None None
     = (\<lparr>users = [account_1\<lparr>balance := 10150, updated_at := 4000\<rparr>],
         transactions = [entry_k1,
           \<lparr>t_id = 103, user_id = 1, transaction_id = ''payout_9f0c_1700000000000'',
            t_type = Payout, amount = 100, balance_before = 10050, balance_after = 10150,
            description = Some ''Game payout'', metadata = Some [],
            processed_at = 4000, t_created_at = 4000\<rparr>]\<rparr>,
        Inr \<lparr>tx_id = 103, tx_userId = 1, tx_transactionId = ''payout_9f0c_1700000000000'',
            tx_type = Payout, tx_amount = 100, tx_balanceBefore = 10050,
            tx_balanceAfter = 10150, tx_description = Some ''Game payout'',
            tx_metadata = Some [], tx_processedAt = ISO_string ''2023-11-14T22:13:20.000Z'',
            tx_createdAt = Empty_object\<rparr>)
   \<and> getTransactionByTransactionId ledger_A (env_at 4000 103) ''k4'' = None
   \<and> creditUser ledger_A (env_at 4000 103) 2 (request_with ''k4'' (Decimal (-5) 0))
     = (ledger_A, Inl AccountNotFound)
   \<and> validateAmount (Decimal 1 7) = Inr ()
   \<and> creditUser ledger_A (env_at 4000 103) 1 (request_with ''k4'' (Decimal 1 7))
     = (ledger_A, Inl (DatabaseError (Check_violation ''transactions_amount_check'')))"
  by code_simp

section \<open>The balance invariant\<close>












section \<open>Properties of the query layer\<close>












end
